theory Spec2Isabelle
  imports Complex_Main
begin

section \<open>JavaScript strings\<close>

text \<open>
  A JavaScript string is modelled as a \<^typ>\<open>string\<close>. \<open>js_split c s\<close> is
  \<^verbatim>\<open>s.split(c)\<close> for a one-character separator: it cuts at every occurrence of the
  separator, keeps empty pieces, and returns one (empty) piece for the empty string.
  \<open>js_join sep ps\<close> is \<^verbatim>\<open>ps.join(sep)\<close> and \<open>slice\<close> with a start of 0 is
  \<^const>\<open>take\<close>.
\<close>

fun js_split :: "char \<Rightarrow> string \<Rightarrow> string list" where
  "js_split c [] = [[]]"
| "js_split c (x # xs) =
     (if x = c then [] # js_split c xs
      else (case js_split c xs of
              [] \<Rightarrow> [[x]]
            | p # ps \<Rightarrow> (x # p) # ps))"

fun js_join :: "string \<Rightarrow> string list \<Rightarrow> string" where
  "js_join sep [] = []"
| "js_join sep [p] = p"
| "js_join sep (p # q # ps) = p @ sep @ js_join sep (q # ps)"

definition startsWith :: "string \<Rightarrow> string \<Rightarrow> bool" where
  "startsWith s pre = (take (length pre) s = pre)"

section \<open>Learning service: position keys\<close>

text \<open>
  \<^verbatim>\<open>normalizePosition(fen)\<close> of \<^verbatim>\<open>server/services/learning.ts\<close>:
  \<^verbatim>\<open>fen.split(' ').slice(0, 4).join(' ')\<close>.
\<close>

definition normalizePosition :: "string \<Rightarrow> string" where
  "normalizePosition fen = js_join '' '' (take 4 (js_split (CHR '' '') fen))"

section \<open>Numbers\<close>

text \<open>
  A JavaScript number is an IEEE double. The model holds a double as the real number it
  denotes. Where the source computes a score, a difference of scores or a running mean,
  the result of each arithmetic operation is rounded to the nearest double, ties to
  even: \<open>fl\<close>; a decimal literal there denotes the double nearest to it. \<open>normalise\<close>
  brings the magnitude into \<open>[2^52, 2^53)\<close> and counts the binary exponent,
  \<open>roundHalfEven\<close> rounds the significand to an integer. The exponent range is not
  modelled: there is no overflow to an infinity and there are no subnormal numbers. A
  random draw is a real in \<open>[0, 1)\<close> and is compared as such. A counter is a
  \<^typ>\<open>nat\<close>.

  A value that the source reads out of engine output with \<^verbatim>\<open>parseInt\<close>, and what is
  computed from it, may be \<^verbatim>\<open>NaN\<close>: such a value is a \<open>parsed\<close> one. Every comparison
  with \<^verbatim>\<open>NaN\<close> is false.
\<close>

datatype 'a parsed = NaN | Num 'a

type_synonym number = "real parsed"

definition roundHalfEven :: "real \<Rightarrow> int" where
  "roundHalfEven x =
     (let f = \<lfloor>x\<rfloor>; r = x - of_int f
      in if r < 1 / 2 then f
         else if 1 / 2 < r then f + 1
         else if even f then f else f + 1)"

fun normalise :: "nat \<Rightarrow> real \<Rightarrow> int \<Rightarrow> real \<times> int" where
  "normalise 0 m e = (m, e)"
| "normalise (Suc fuel) m e =
     (if m < 2 ^ 52 then normalise fuel (m * 2) (e - 1)
      else if 2 ^ 53 \<le> m then normalise fuel (m / 2) (e + 1)
      else (m, e))"

definition scale :: "int \<Rightarrow> int \<Rightarrow> real" where
  "scale k e = (if 0 \<le> e then of_int k * 2 ^ nat e else of_int k / 2 ^ nat (- e))"

definition fl :: "real \<Rightarrow> real" where
  "fl x =
     (if x = 0 then 0
      else (case normalise 2200 \<bar>x\<bar> 0 of
              (m, e) \<Rightarrow>
                if x < 0 then - scale (roundHalfEven m) e else scale (roundHalfEven m) e))"

text \<open>
  Subtraction, \<^verbatim>\<open>Math.abs\<close>, \<^verbatim>\<open>a <= b\<close> and a decimal literal, on numbers that may be
  \<^verbatim>\<open>NaN\<close>.
\<close>

definition jsSub :: "number \<Rightarrow> number \<Rightarrow> number" where
  "jsSub a b =
     (case a of NaN \<Rightarrow> NaN | Num x \<Rightarrow> (case b of NaN \<Rightarrow> NaN | Num y \<Rightarrow> Num (fl (x - y))))"

definition jsAbs :: "number \<Rightarrow> number" where
  "jsAbs a = (case a of NaN \<Rightarrow> NaN | Num x \<Rightarrow> Num \<bar>x\<bar>)"

definition jsLe :: "number \<Rightarrow> number \<Rightarrow> bool" where
  "jsLe a b =
     (case a of NaN \<Rightarrow> False | Num x \<Rightarrow> (case b of NaN \<Rightarrow> False | Num y \<Rightarrow> x \<le> y))"

definition lit :: "real \<Rightarrow> number" where
  "lit x = Num (fl x)"

section \<open>Engine client: move classification\<close>

text \<open>
  The interface \<^verbatim>\<open>EngineEvaluation\<close> and \<^verbatim>\<open>StockfishEngine.classifyMove\<close>. The score is
  what \<^verbatim>\<open>parseEvaluation\<close> computes from the engine's output, so it may be \<^verbatim>\<open>NaN\<close>.
  The difference of the scores is rounded, and the bounds are the doubles that the
  literals denote.
\<close>

record EngineEvaluation =
  score :: number
  mate :: "int option"
  bestMove :: string
  pv :: "string list"
  depth :: int

definition classifyMove :: "EngineEvaluation \<Rightarrow> EngineEvaluation \<Rightarrow> string" where
  "classifyMove evaluation bestEval =
     (let diff = jsAbs (jsSub (score evaluation) (score bestEval)) in
      if jsLe diff (lit 0.1) then ''best''
      else if jsLe diff (lit 0.25) then ''excellent''
      else if jsLe diff (lit 0.5) then ''good''
      else if jsLe diff (lit 1.0) then ''inaccuracy''
      else if jsLe diff (lit 2.0) then ''mistake''
      else ''blunder'')"

section \<open>Engine client: parsing engine output\<close>

text \<open>
  \<^verbatim>\<open>parseInt(t)\<close> with no radix: leading white space is skipped, a sign is read, the
  prefix \<^verbatim>\<open>0x\<close> selects radix 16, and the longest run of digits is the value; no digit
  gives \<^verbatim>\<open>NaN\<close>. The white space modelled is the ASCII part of the language's.
\<close>

definition isWhiteSpace :: "char \<Rightarrow> bool" where
  "isWhiteSpace c = (c \<in> set [CHR 0x09, CHR 0x0A, CHR 0x0B, CHR 0x0C, CHR 0x0D, CHR 0x20])"

definition digitOf :: "nat \<Rightarrow> char \<Rightarrow> nat option" where
  "digitOf radix c =
     (let n = (of_char c :: nat);
          v = (if 48 \<le> n \<and> n \<le> 57 then Some (n - 48)
               else if 97 \<le> n \<and> n \<le> 122 then Some (n - 87)
               else if 65 \<le> n \<and> n \<le> 90 then Some (n - 55)
               else None)
      in case v of None \<Rightarrow> None | Some d \<Rightarrow> if d < radix then Some d else None)"

definition digitsToNat :: "nat \<Rightarrow> string \<Rightarrow> nat" where
  "digitsToNat radix ds =
     foldl (\<lambda>a c. radix * a + (case digitOf radix c of None \<Rightarrow> 0 | Some d \<Rightarrow> d)) 0 ds"

definition parseInt :: "string \<Rightarrow> int parsed" where
  "parseInt t =
     (let t0 = dropWhile isWhiteSpace t;
          negative = (case t0 of c # _ \<Rightarrow> c = CHR ''-'' | [] \<Rightarrow> False);
          t1 = (case t0 of c # r \<Rightarrow> if c = CHR ''+'' \<or> c = CHR ''-'' then r else t0 | [] \<Rightarrow> t0);
          hex = (startsWith t1 ''0x'' \<or> startsWith t1 ''0X'');
          radix = (if hex then 16 else 10);
          t2 = (if hex then drop 2 t1 else t1);
          ds = takeWhile (\<lambda>c. digitOf radix c \<noteq> None) t2
      in if ds = [] then NaN
         else Num (if negative then - int (digitsToNat radix ds) else int (digitsToNat radix ds)))"

text \<open>
  \<^verbatim>\<open>parts[k]\<close> beyond the end of the array is \<^verbatim>\<open>undefined\<close>: it equals no string,
  and \<^verbatim>\<open>parseInt\<close> reads it as the text \<^verbatim>\<open>undefined\<close>.
\<close>

definition partAt :: "string list \<Rightarrow> nat \<Rightarrow> string option" where
  "partAt parts k = (if k < length parts then Some (parts ! k) else None)"

definition parseIntAt :: "string list \<Rightarrow> nat \<Rightarrow> int parsed" where
  "parseIntAt parts k =
     parseInt (case partAt parts k of None \<Rightarrow> ''undefined'' | Some t \<Rightarrow> t)"

text \<open>
  The local variables of \<^verbatim>\<open>parseEvaluation\<close> and its loop over \<^verbatim>\<open>parts\<close>. The
  loop is written over the remaining parts: \<open>p\<close> is \<^verbatim>\<open>parts[i]\<close> and \<open>rest\<close> holds
  \<^verbatim>\<open>parts[i + 1]\<close> onwards. The index advances by one in every branch but
  \<^verbatim>\<open>pv\<close>, which takes the rest of the line and leaves the loop.
\<close>

record ParseVars =
  pv_depth :: "int parsed"
  pv_score :: "int parsed"
  pv_mate :: "int parsed option"
  pv_pv :: "string list"

definition initialVars :: ParseVars where
  "initialVars = \<lparr>pv_depth = Num 0, pv_score = Num 0, pv_mate = None, pv_pv = []\<rparr>"

fun scanParts :: "string list \<Rightarrow> ParseVars \<Rightarrow> ParseVars" where
  "scanParts [] vars = vars"
| "scanParts (p # rest) vars =
     (if p = ''depth'' then scanParts rest (vars\<lparr>pv_depth := parseIntAt rest 0\<rparr>)
      else if p = ''score'' then
        (if partAt rest 0 = Some ''cp''
         then scanParts rest (vars\<lparr>pv_score := parseIntAt rest 1\<rparr>)
         else if partAt rest 0 = Some ''mate''
         then scanParts rest (vars\<lparr>pv_mate := Some (parseIntAt rest 1)\<rparr>)
         else scanParts rest vars)
      else if p = ''pv'' then vars\<lparr>pv_pv := rest\<rparr>
      else scanParts rest vars)"

text \<open>
  The object handed to the resolver of an \<^verbatim>\<open>evaluate\<close> call. The resolver takes
  \<^verbatim>\<open>any\<close>; the fields are those of \<^verbatim>\<open>EngineEvaluation\<close>, with the numbers as parsed.
  \<^verbatim>\<open>pv[0] || ''\<close> is the first move of the line, or the empty string.
\<close>

record EvaluationFrame =
  frameScore :: "real parsed"
  frameMate :: "int parsed option"
  frameBestMove :: string
  framePv :: "string list"
  frameDepth :: "int parsed"

definition frameOfVars :: "ParseVars \<Rightarrow> EvaluationFrame" where
  "frameOfVars vars =
     \<lparr>frameScore = (case pv_score vars of NaN \<Rightarrow> NaN | Num c \<Rightarrow> Num (fl (real_of_int c / 100))),
      frameMate = pv_mate vars,
      frameBestMove = (case pv_pv vars of [] \<Rightarrow> [] | m # _ \<Rightarrow> m),
      framePv = pv_pv vars,
      frameDepth = pv_depth vars\<rparr>"

definition parseLine :: "string \<Rightarrow> ParseVars" where
  "parseLine line = scanParts (js_split (CHR '' '') line) initialVars"

text \<open>\<^verbatim>\<open>depth >= 10\<close>, which is false for \<^verbatim>\<open>NaN\<close>.\<close>

definition atLeastTen :: "int parsed \<Rightarrow> bool" where
  "atLeastTen d = (case d of NaN \<Rightarrow> False | Num n \<Rightarrow> 10 \<le> n)"

section \<open>Engine client: state and requests\<close>

text \<open>
  The fields of \<^verbatim>\<open>StockfishEngine\<close>. \<open>engine\<close> tells whether the handle of the
  subprocess is set. A resolver in \<^verbatim>\<open>resolveMap\<close> is represented by the number of the
  call that registered it. Two fields record what the client does to the outside: the
  commands written to the subprocess and the calls of resolvers, in order.
\<close>

datatype Resolution =
  BestMoveResolved nat "string option"
| EvaluationResolved nat EvaluationFrame

record StockfishEngine =
  engine :: bool
  isReady :: bool
  resolveMap :: "string \<rightharpoonup> nat"
  written :: "string list"
  resolutions :: "Resolution list"
  calls :: nat

definition sendCommand :: "StockfishEngine \<Rightarrow> string \<Rightarrow> StockfishEngine" where
  "sendCommand s command =
     (if engine s then s\<lparr>written := written s @ [command @ [CHR 0x0A]]\<rparr> else s)"

text \<open>
  \<^verbatim>\<open>initEngine\<close>: \<^verbatim>\<open>spawn\<close> either returns a handle or throws. When it throws, the
  handle stays \<^verbatim>\<open>null\<close> and the handler marks the client ready. The \<^verbatim>\<open>error\<close> event
  of a handle that was returned marks the client ready as well, and keeps the handle.
\<close>

datatype SpawnResult = SpawnReturns | SpawnThrows

definition initEngine :: "SpawnResult \<Rightarrow> StockfishEngine" where
  "initEngine r =
     (case r of
        SpawnThrows \<Rightarrow>
          \<lparr>engine = False, isReady = True, resolveMap = Map.empty, written = [],
           resolutions = [], calls = 0\<rparr>
      | SpawnReturns \<Rightarrow>
          sendCommand
            (sendCommand
               \<lparr>engine = True, isReady = False, resolveMap = Map.empty, written = [],
                resolutions = [], calls = 0\<rparr> ''uci'')
            ''isready'')"

definition onError :: "StockfishEngine \<Rightarrow> StockfishEngine" where
  "onError s = s\<lparr>isReady := True\<rparr>"

definition parseEvaluation :: "StockfishEngine \<Rightarrow> string \<Rightarrow> StockfishEngine" where
  "parseEvaluation s line =
     (let vars = parseLine line in
      case resolveMap s ''evaluation'' of
        Some resolver \<Rightarrow>
          if atLeastTen (pv_depth vars)
          then s\<lparr>resolutions := resolutions s @ [EvaluationResolved resolver (frameOfVars vars)],
                 resolveMap := (resolveMap s)(''evaluation'' := None)\<rparr>
          else s
      | None \<Rightarrow> s)"

definition handleLine :: "StockfishEngine \<Rightarrow> string \<Rightarrow> StockfishEngine" where
  "handleLine s line =
     (if line = ''uciok'' then sendCommand s ''isready''
      else if line = ''readyok'' then s\<lparr>isReady := True\<rparr>
      else if startsWith line ''bestmove'' then
        (let parts = js_split (CHR '' '') line;
             bestMove = partAt parts 1
         in case resolveMap s ''bestmove'' of
              Some resolver \<Rightarrow>
                s\<lparr>resolutions := resolutions s @ [BestMoveResolved resolver bestMove],
                  resolveMap := (resolveMap s)(''bestmove'' := None)\<rparr>
            | None \<Rightarrow> s)
      else if startsWith line ''info'' then parseEvaluation s line
      else s)"

definition trim :: "string \<Rightarrow> string" where
  "trim t = rev (dropWhile isWhiteSpace (rev (dropWhile isWhiteSpace t)))"

definition handleEngineOutput :: "StockfishEngine \<Rightarrow> string \<Rightarrow> StockfishEngine" where
  "handleEngineOutput s output = foldl handleLine s (js_split (CHR 0x0A) (trim output))"

text \<open>
  A call of an \<^verbatim>\<open>async\<close> method returns a value, fails with an exception, or
  stays pending on a promise that only later engine output can resolve. While the
  client is not ready the call stays in \<^verbatim>\<open>waitForReady\<close>, which is a pending call with
  nothing done yet. The two requests of the client never fail.
\<close>

datatype 'a Outcome = Returns 'a | Raises | Pending

fun showNat :: "nat \<Rightarrow> string" where
  "showNat n =
     (if n < 10 then [char_of (48 + n)]
      else showNat (n div 10) @ [char_of (48 + n mod 10)])"

definition getBestMove ::
  "StockfishEngine \<Rightarrow> string \<Rightarrow> nat \<Rightarrow> string Outcome \<times> StockfishEngine" where
  "getBestMove s fen timeMs =
     (if \<not> isReady s then (Pending, s)
      else if \<not> engine s then (Returns ''e2e4'', s)
      else
        (let s1 = s\<lparr>resolveMap := (resolveMap s)(''bestmove'' \<mapsto> calls s), calls := calls s + 1\<rparr>;
             s2 = sendCommand s1 (''position fen '' @ fen);
             s3 = sendCommand s2 (''go movetime '' @ showNat timeMs)
         in (Pending, s3)))"

definition fallbackEvaluation :: EngineEvaluation where
  "fallbackEvaluation =
     \<lparr>score = Num 0, mate = None, bestMove = ''e2e4'', pv = [''e2e4''], depth = 1\<rparr>"

definition evaluatePosition ::
  "StockfishEngine \<Rightarrow> string \<Rightarrow> nat \<Rightarrow> EngineEvaluation Outcome \<times> StockfishEngine" where
  "evaluatePosition s fen searchDepth =
     (if \<not> isReady s then (Pending, s)
      else if \<not> engine s then (Returns fallbackEvaluation, s)
      else
        (let s1 = s\<lparr>resolveMap := (resolveMap s)(''evaluation'' \<mapsto> calls s), calls := calls s + 1\<rparr>;
             s2 = sendCommand s1 (''position fen '' @ fen);
             s3 = sendCommand s2 (''go depth '' @ showNat searchDepth)
         in (Pending, s3)))"

text \<open>The calls of the resolvers of \<^verbatim>\<open>evaluate\<close> requests made so far, in order.\<close>

fun evaluationCalls :: "Resolution list \<Rightarrow> (nat \<times> EvaluationFrame) list" where
  "evaluationCalls [] = []"
| "evaluationCalls (BestMoveResolved k m # rs) = evaluationCalls rs"
| "evaluationCalls (EvaluationResolved k f # rs) = (k, f) # evaluationCalls rs"

text \<open>
  A line is an evaluation frame that meets the depth floor when it starts with
  \<^verbatim>\<open>info\<close> and its parsed depth is at least 10.
\<close>

definition deepFrame :: "string \<Rightarrow> bool" where
  "deepFrame line = (startsWith line ''info'' \<and> atLeastTen (pv_depth (parseLine line)))"

text \<open>
  Modelled from the spec: the shape of a move token, which no function of the
  repository checks. ``Move tokens are 4--5 character coordinate strings (e.g.,
  \<^verbatim>\<open>e2e4\<close>, \<^verbatim>\<open>e7e8q\<close>)'': two squares, and a promotion piece in the fifth place.
\<close>

definition isSquare :: "char \<Rightarrow> char \<Rightarrow> bool" where
  "isSquare f r = (f \<in> set ''abcdefgh'' \<and> r \<in> set ''12345678'')"

fun validMoveToken :: "string \<Rightarrow> bool" where
  "validMoveToken [f1, r1, f2, r2] = (isSquare f1 r1 \<and> isSquare f2 r2)"
| "validMoveToken [f1, r1, f2, r2, p] = (isSquare f1 r1 \<and> isSquare f2 r2 \<and> p \<in> set ''qrbn'')"
| "validMoveToken t = False"

section \<open>Learning service: the two stores\<close>

text \<open>
  The interfaces \<^verbatim>\<open>OpeningMove\<close> and \<^verbatim>\<open>PositionData\<close> and the two
  \<^verbatim>\<open>Map\<close>s of \<^verbatim>\<open>ChessLearningService\<close>. The \<^verbatim>\<open>fen\<close> fields carry a prefix
  because record fields share one name space.
\<close>

record OpeningMove =
  om_fen :: string
  move :: string
  count :: nat
  winRate :: real
  avgEvaluation :: real

record PositionData =
  pd_fen :: string
  bestMoves :: "string list"
  evaluation :: real
  gamesPlayed :: nat

record ChessLearningService =
  openingBook :: "string \<rightharpoonup> OpeningMove list"
  positionDatabase :: "string \<rightharpoonup> PositionData"

definition maxOpeningMoves :: nat where
  "maxOpeningMoves = 15"

definition emptyService :: ChessLearningService where
  "emptyService = \<lparr>openingBook = Map.empty, positionDatabase = Map.empty\<rparr>"

text \<open>
  The local \<^verbatim>\<open>wins\<close> (\<^verbatim>\<open>winRate\<close> in the branch that creates an entry) of
  \<^verbatim>\<open>addToOpeningBook\<close>: three assignments in sequence, the last one winning.
\<close>

definition wins :: "string \<Rightarrow> bool \<Rightarrow> bool \<Rightarrow> bool \<Rightarrow> real" where
  "wins side whiteWon blackWon draw =
     (let w0 = 0;
          w1 = (if side = ''white'' \<and> whiteWon then 1 else w0);
          w2 = (if side = ''black'' \<and> blackWon then 1 else w1);
          w3 = (if draw then 0.5 else w2)
      in w3)"

text \<open>
  \<^verbatim>\<open>movesForPosition.find(m => m.move === move)\<close> returns the first matching object
  and the source mutates it in place: \<open>mutateFirst\<close> rewrites the first match. In the
  running mean \<^verbatim>\<open>(avg * (n - 1) + value) / n\<close> the product, the sum and the quotient are
  each rounded to a double; \<^verbatim>\<open>n - 1\<close> is a small integer and exact.
\<close>

fun mutateFirst :: "('a \<Rightarrow> bool) \<Rightarrow> ('a \<Rightarrow> 'a) \<Rightarrow> 'a list \<Rightarrow> 'a list" where
  "mutateFirst P f [] = []"
| "mutateFirst P f (x # xs) = (if P x then f x # xs else x # mutateFirst P f xs)"

definition updateExisting :: "real \<Rightarrow> real \<Rightarrow> OpeningMove \<Rightarrow> OpeningMove" where
  "updateExisting w ev existingMove =
     (let totalGames = count existingMove + 1 in
      existingMove
        \<lparr>count := totalGames,
         winRate :=
           fl (fl (fl (winRate existingMove * (real totalGames - 1)) + w) / real totalGames),
         avgEvaluation :=
           fl (fl (fl (avgEvaluation existingMove * (real totalGames - 1)) + ev)
                 / real totalGames)\<rparr>)"

definition addToOpeningBook ::
  "ChessLearningService \<Rightarrow> string \<Rightarrow> string \<Rightarrow> bool \<Rightarrow> bool \<Rightarrow> bool \<Rightarrow> string \<Rightarrow> real
     \<Rightarrow> ChessLearningService" where
  "addToOpeningBook s fen mv whiteWon blackWon draw side ev =
     (let movesForPosition = (case openingBook s fen of None \<Rightarrow> [] | Some ms \<Rightarrow> ms);
          updated =
            (case find (\<lambda>m. move m = mv) movesForPosition of
               Some existingMove \<Rightarrow>
                 mutateFirst (\<lambda>m. move m = mv)
                   (updateExisting (wins side whiteWon blackWon draw) ev) movesForPosition
             | None \<Rightarrow>
                 movesForPosition @
                   [\<lparr>om_fen = fen, move = mv, count = 1,
                     winRate = wins side whiteWon blackWon draw, avgEvaluation = ev\<rparr>])
      in s\<lparr>openingBook := (openingBook s)(fen \<mapsto> updated)\<rparr>)"

definition addToPositionDatabase ::
  "ChessLearningService \<Rightarrow> string \<Rightarrow> string \<Rightarrow> real \<Rightarrow> ChessLearningService" where
  "addToPositionDatabase s fen mv ev =
     (case positionDatabase s fen of
        Some posData \<Rightarrow>
          (let posData1 =
                 (if mv \<in> set (bestMoves posData) then posData
                  else posData\<lparr>bestMoves := bestMoves posData @ [mv]\<rparr>);
               n = gamesPlayed posData1 + 1;
               posData2 =
                 posData1\<lparr>gamesPlayed := n,
                          evaluation :=
                            fl (fl (fl (evaluation posData1 * (real n - 1)) + ev) / real n)\<rparr>
           in s\<lparr>positionDatabase := (positionDatabase s)(fen \<mapsto> posData2)\<rparr>)
      | None \<Rightarrow>
          s\<lparr>positionDatabase := (positionDatabase s)
               (fen \<mapsto> \<lparr>pd_fen = fen, bestMoves = [mv], evaluation = ev, gamesPlayed = 1\<rparr>)\<rparr>)"






section \<open>The rules engine\<close>

text \<open>
  The rules engine is the library \<^verbatim>\<open>chess.js\<close>, which is not part of the repository:
  the model takes it as a parameter. A value of type \<open>'g\<close> is the state of one
  \<^verbatim>\<open>Chess\<close> object. \<open>applyMove\<close> is \<^verbatim>\<open>chess.move(m)\<close>: it answers with the move
  object, or rejects the move, either by returning \<^verbatim>\<open>null\<close> or by throwing. The source
  provides for both: it tests the returned object (\<^verbatim>\<open>if (moveObj)\<close>) and it wraps the
  call in \<^verbatim>\<open>try\<close>. The call is a method of a mutable object, so every answer, a
  rejection too, carries the state the object is in after the call.
\<close>

record MoveObject =
  mo_san :: string
  mo_from :: string
  mo_to :: string
  mo_promotion :: "string option"
  mo_after :: "string option"

datatype 'g MoveResult = Moved MoveObject 'g | Null 'g | Throws 'g

record 'g RulesEngine =
  newChess :: 'g
  fenOf :: "'g \<Rightarrow> string"
  pgnOf :: "'g \<Rightarrow> string"
  turnOf :: "'g \<Rightarrow> string"
  historyOf :: "'g \<Rightarrow> MoveObject list"
  legalMoves :: "'g \<Rightarrow> string list"
  applyMove :: "'g \<Rightarrow> string \<Rightarrow> 'g MoveResult"
  isGameOver :: "'g \<Rightarrow> bool"
  isCheck :: "'g \<Rightarrow> bool"
  isCheckmate :: "'g \<Rightarrow> bool"
  isStalemate :: "'g \<Rightarrow> bool"
  isDraw :: "'g \<Rightarrow> bool"

section \<open>Learning service: ingestion of a historical game\<close>

text \<open>
  A row of the table \<^verbatim>\<open>moves\<close>, with the columns the ingestion reads. The column
  \<^verbatim>\<open>evaluation\<close> is nullable text.
\<close>

record MoveRow =
  moveNumber :: int
  side :: string
  row_san :: string
  row_uci :: string
  row_evaluation :: "string option"

text \<open>
  \<^verbatim>\<open>move.evaluation || '0'\<close>: \<^verbatim>\<open>null\<close> and the empty string are the falsy values of a
  nullable string.
\<close>

definition evaluationText :: "MoveRow \<Rightarrow> string" where
  "evaluationText mv =
     (case row_evaluation mv of None \<Rightarrow> ''0'' | Some t \<Rightarrow> if t = [] then ''0'' else t)"

text \<open>
  The body of the loop of \<^verbatim>\<open>processGameForLearning\<close> up to the call of
  \<^verbatim>\<open>chess.move\<close>. \<^verbatim>\<open>parseFloat\<close> belongs to the runtime and is a parameter.
\<close>

definition learnOne ::
  "(string \<Rightarrow> real) \<Rightarrow> bool \<Rightarrow> bool \<Rightarrow> bool \<Rightarrow> nat \<Rightarrow> string \<Rightarrow> MoveRow
     \<Rightarrow> ChessLearningService \<Rightarrow> ChessLearningService" where
  "learnOne parseFloat whiteWon blackWon draw i positionKey mv s =
     (let s1 =
            (if i < maxOpeningMoves
             then addToOpeningBook s positionKey (row_uci mv) whiteWon blackWon draw (side mv)
                    (parseFloat (evaluationText mv))
             else s)
      in addToPositionDatabase s1 positionKey (row_uci mv) (parseFloat (evaluationText mv)))"

text \<open>
  The loop over \<^verbatim>\<open>gameMoves\<close>, from index \<open>i\<close> on. An exception of
  \<^verbatim>\<open>chess.move(move.san)\<close> is caught outside the loop and ends the game's ingestion;
  what was ingested before stays.
\<close>

fun learnMoves ::
  "'g RulesEngine \<Rightarrow> (string \<Rightarrow> real) \<Rightarrow> bool \<Rightarrow> bool \<Rightarrow> bool \<Rightarrow> nat \<Rightarrow> MoveRow list \<Rightarrow> 'g
     \<Rightarrow> ChessLearningService \<Rightarrow> ChessLearningService" where
  "learnMoves R parseFloat whiteWon blackWon draw i [] chess s = s"
| "learnMoves R parseFloat whiteWon blackWon draw i (mv # rest) chess s =
     (let positionKey = normalizePosition (fenOf R chess);
          s' = learnOne parseFloat whiteWon blackWon draw i positionKey mv s
      in case applyMove R chess (row_san mv) of
           Moved obj chess' \<Rightarrow> learnMoves R parseFloat whiteWon blackWon draw (i + 1) rest chess' s'
         | Null chess' \<Rightarrow> learnMoves R parseFloat whiteWon blackWon draw (i + 1) rest chess' s'
         | Throws chess' \<Rightarrow> s')"

definition processGameForLearning ::
  "'g RulesEngine \<Rightarrow> (string \<Rightarrow> real) \<Rightarrow> ChessLearningService \<Rightarrow> MoveRow list \<Rightarrow> string
     \<Rightarrow> ChessLearningService" where
  "processGameForLearning R parseFloat s gameMoves result =
     (let whiteWon = (result = ''1-0'');
          blackWon = (result = ''0-1'');
          draw = (result = ''1/2-1/2'')
      in learnMoves R parseFloat whiteWon blackWon draw 0 gameMoves (newChess R) s)"

section \<open>Learning service: the book move\<close>

text \<open>
  \<^verbatim>\<open>getBookMove\<close>. A scored move is the pair of the move and its score. The sort with
  the comparator \<^verbatim>\<open>b.score - a.score\<close> is stable and descending: \<^const>\<open>sort_key\<close> on
  the negated score. The draw of \<^verbatim>\<open>Math.random()\<close> is the argument \<open>rand\<close>.
  An element of the array is an object, so \<^verbatim>\<open>scoredMoves[k]\<close> is truthy exactly when
  \<open>k\<close> is below the length; the last line \<^verbatim>\<open>scoredMoves[0]?.move || null\<close> turns an
  empty move string into \<^verbatim>\<open>null\<close>.
  The score itself is written in exact arithmetic: \<^verbatim>\<open>Math.tanh\<close> is left to the
  implementation by the language, and what \<open>getBookMove\<close> does with the ranked list
  does not depend on how the scores were computed.
\<close>

definition moveScore :: "OpeningMove \<Rightarrow> real" where
  "moveScore m =
     winRate m * 0.5 + min (real (count m) / 10) 1 * 0.3 + tanh (avgEvaluation m / 2) * 0.2"

definition scoreMoves :: "OpeningMove list \<Rightarrow> (string \<times> real) list" where
  "scoreMoves movesForPosition =
     sort_key (\<lambda>sm. - snd sm) (map (\<lambda>m. (move m, moveScore m)) movesForPosition)"

definition pickScored :: "real \<Rightarrow> (string \<times> real) list \<Rightarrow> string option" where
  "pickScored rand scoredMoves =
     (if rand < 0.7 \<and> 0 < length scoredMoves then Some (fst (scoredMoves ! 0))
      else if rand < 0.9 \<and> 1 < length scoredMoves then Some (fst (scoredMoves ! 1))
      else if 2 < length scoredMoves then Some (fst (scoredMoves ! 2))
      else (case scoredMoves of
              [] \<Rightarrow> None
            | sm # _ \<Rightarrow> if fst sm = [] then None else Some (fst sm)))"

definition getBookMove :: "ChessLearningService \<Rightarrow> real \<Rightarrow> string \<Rightarrow> string option" where
  "getBookMove s rand fen =
     (case openingBook s (normalizePosition fen) of
        None \<Rightarrow> None
      | Some movesForPosition \<Rightarrow>
          if movesForPosition = [] then None
          else pickScored rand (scoreMoves movesForPosition))"

definition getCommonMoves :: "ChessLearningService \<Rightarrow> string \<Rightarrow> string list" where
  "getCommonMoves s fen =
     (case positionDatabase s (normalizePosition fen) of
        None \<Rightarrow> []
      | Some posData \<Rightarrow> bestMoves posData)"

definition hasLearnedPosition :: "ChessLearningService \<Rightarrow> string \<Rightarrow> bool" where
  "hasLearnedPosition s fen = (positionDatabase s (normalizePosition fen) \<noteq> None)"

text \<open>
  An instance for the parameter \<^verbatim>\<open>parseFloat\<close> in examples: the value of a string of
  decimal digits, on which it agrees with the runtime's function.
\<close>

definition digitsValue :: "string \<Rightarrow> real" where
  "digitsValue t = real (foldl (\<lambda>a c. 10 * a + (of_char c - 48)) 0 t)"


section \<open>Game service\<close>

text \<open>
  \<^verbatim>\<open>ChessGameService\<close> of \<^verbatim>\<open>server/services/chess.ts\<close>. The state of the service is
  the state of its \<^verbatim>\<open>Chess\<close> object. The optional fields of \<^verbatim>\<open>GameMove\<close>, which
  the functions below never set, are left out.
\<close>

record GameMove =
  gm_san :: string
  gm_uci :: string
  gm_fen :: string


text \<open>\<^verbatim>\<open>moveObj.from + moveObj.to + (moveObj.promotion || '')\<close>.\<close>

definition uciOf :: "MoveObject \<Rightarrow> string" where
  "uciOf obj = mo_from obj @ mo_to obj @ (case mo_promotion obj of None \<Rightarrow> [] | Some p \<Rightarrow> p)"


definition makeMove :: "'g RulesEngine \<Rightarrow> 'g \<Rightarrow> string \<Rightarrow> GameMove option \<times> 'g" where
  "makeMove R chess mv =
     (case applyMove R chess mv of
        Moved moveObj chess' \<Rightarrow>
          (Some \<lparr>gm_san = mo_san moveObj, gm_uci = uciOf moveObj, gm_fen = fenOf R chess'\<rparr>,
           chess')
      | Null chess' \<Rightarrow> (None, chess')
      | Throws chess' \<Rightarrow> (None, chess'))"


text \<open>
  \<^verbatim>\<open>makeAIMove\<close>. What a part of the \<^verbatim>\<open>try\<close> block does: it returns from the
  function, falls through to the next statement, throws into the \<^verbatim>\<open>catch\<close> block, or
  waits on a promise that is never resolved; each with the state of the \<^verbatim>\<open>Chess\<close>
  object at that point.
\<close>

datatype 'g Step = Return "GameMove option" 'g | Fall 'g | Throw 'g | Wait 'g

text \<open>
  Step 1, the opening book. \<open>randBook\<close> is the draw inside \<^verbatim>\<open>getBookMove\<close>;
  \<^verbatim>\<open>if (bookMove)\<close> is false for \<^verbatim>\<open>null\<close> and for the empty string.
\<close>

definition tryBook :: "'g RulesEngine \<Rightarrow> ChessLearningService \<Rightarrow> 'g \<Rightarrow> real \<Rightarrow> 'g Step" where
  "tryBook R L chess randBook =
     (let currentFen = fenOf R chess;
          moveCount = length (historyOf R chess)
      in if moveCount < 15 then
           (case getBookMove L randBook currentFen of
              None \<Rightarrow> Fall chess
            | Some bookMove \<Rightarrow>
                if bookMove = [] then Fall chess
                else (case applyMove R chess bookMove of
                        Moved moveObj chess' \<Rightarrow>
                          Return (Some \<lparr>gm_san = mo_san moveObj, gm_uci = bookMove,
                                        gm_fen = fenOf R chess'\<rparr>) chess'
                      | Null chess' \<Rightarrow> Fall chess'
                      | Throws chess' \<Rightarrow> Throw chess'))
         else Fall chess)"

text \<open>
  Step 2, the position database: the loop over \<^verbatim>\<open>commonMoves\<close>. \<open>currentFen\<close> is the
  constant read at the top of the function.
\<close>

fun tryLearnedMoves :: "'g RulesEngine \<Rightarrow> 'g \<Rightarrow> string list \<Rightarrow> 'g Step" where
  "tryLearnedMoves R chess [] = Fall chess"
| "tryLearnedMoves R chess (learnedMove # rest) =
     (case applyMove R chess learnedMove of
        Moved moveObj chess' \<Rightarrow>
          Return (Some \<lparr>gm_san = mo_san moveObj, gm_uci = learnedMove,
                        gm_fen = fenOf R chess'\<rparr>) chess'
      | Null chess' \<Rightarrow> tryLearnedMoves R chess' rest
      | Throws chess' \<Rightarrow> Throw chess')"

definition tryLearned ::
  "'g RulesEngine \<Rightarrow> ChessLearningService \<Rightarrow> string \<Rightarrow> 'g \<Rightarrow> nat \<Rightarrow> real \<Rightarrow> 'g Step" where
  "tryLearned R L currentFen chess difficulty randLearn =
     (if hasLearnedPosition L currentFen then
        (let commonMoves = getCommonMoves L currentFen;
             useLearnedMove = (randLearn < real difficulty / 2000)
         in if useLearnedMove \<and> 0 < length commonMoves
            then tryLearnedMoves R chess commonMoves
            else Fall chess)
      else Fall chess)"

text \<open>
  Step 3, the engine. \<open>answer\<close> is what the promise of a pending \<^verbatim>\<open>getBestMove\<close> is
  resolved with when the engine's \<^verbatim>\<open>bestmove\<close> line arrives, or \<open>Pending\<close> if it never
  does. The changes of the client's own state are those of \<open>getBestMove\<close> and
  \<open>handleLine\<close>; the game service reads the awaited value only.
\<close>

definition awaitBestMove ::
  "StockfishEngine \<Rightarrow> string \<Rightarrow> nat \<Rightarrow> string Outcome \<Rightarrow> string Outcome" where
  "awaitBestMove E fen timeMs answer =
     (case fst (getBestMove E fen timeMs) of
        Returns m \<Rightarrow> Returns m
      | Raises \<Rightarrow> Raises
      | Pending \<Rightarrow> answer)"

definition askEngine ::
  "'g RulesEngine \<Rightarrow> StockfishEngine \<Rightarrow> string \<Rightarrow> 'g \<Rightarrow> nat \<Rightarrow> string Outcome \<Rightarrow> 'g Step" where
  "askEngine R E currentFen chess difficulty answer =
     (let thinkingTime = max 500 (min 3000 difficulty)
      in case awaitBestMove E currentFen thinkingTime answer of
           Returns best \<Rightarrow>
             (case applyMove R chess best of
                Moved moveObj chess' \<Rightarrow>
                  Return (Some \<lparr>gm_san = mo_san moveObj, gm_uci = best,
                                gm_fen = fenOf R chess'\<rparr>) chess'
              | Null chess' \<Rightarrow> Return None chess'
              | Throws chess' \<Rightarrow> Throw chess')
         | Raises \<Rightarrow> Throw chess
         | Pending \<Rightarrow> Wait chess)"

text \<open>
  The \<^verbatim>\<open>catch\<close> block: a random legal move. \<open>randFallback\<close> is the draw of
  \<^verbatim>\<open>Math.random()\<close>, and the index \<^verbatim>\<open>Math.floor(Math.random() * moves.length)\<close> is
  taken exactly. An index outside the array reads \<^verbatim>\<open>undefined\<close>, which the rules
  engine rejects; a rejection here, by \<^verbatim>\<open>null\<close> (then \<^verbatim>\<open>moveObj.san\<close> fails) or by an
  exception, leaves the function as an exception.
\<close>

definition randomLegalMove ::
  "'g RulesEngine \<Rightarrow> 'g \<Rightarrow> real \<Rightarrow> GameMove option Outcome \<times> 'g" where
  "randomLegalMove R chess randFallback =
     (let moves = legalMoves R chess in
      if length moves = 0 then (Returns None, chess)
      else
        (let k = \<lfloor>randFallback * real (length moves)\<rfloor> in
         if 0 \<le> k \<and> k < int (length moves) then
           (case applyMove R chess (moves ! nat k) of
              Moved moveObj chess' \<Rightarrow>
                (Returns (Some \<lparr>gm_san = mo_san moveObj, gm_uci = uciOf moveObj,
                                 gm_fen = fenOf R chess'\<rparr>), chess')
            | Null chess' \<Rightarrow> (Raises, chess')
            | Throws chess' \<Rightarrow> (Raises, chess'))
         else (Raises, chess)))"

text \<open>
  The function from a step on: \<open>fromEngine\<close> is step 3 inside the \<^verbatim>\<open>try\<close>,
  \<open>fromLearned\<close> is steps 2 and 3, and \<open>makeAIMove\<close> is the whole function. The last
  argument of the first two is the state of the \<^verbatim>\<open>Chess\<close> object when the step begins.
\<close>

definition finish ::
  "'g RulesEngine \<Rightarrow> real \<Rightarrow> 'g Step \<Rightarrow> ('g \<Rightarrow> GameMove option Outcome \<times> 'g)
     \<Rightarrow> GameMove option Outcome \<times> 'g" where
  "finish R randFallback step continue =
     (case step of
        Return result chess' \<Rightarrow> (Returns result, chess')
      | Throw chess' \<Rightarrow> randomLegalMove R chess' randFallback
      | Wait chess' \<Rightarrow> (Pending, chess')
      | Fall chess' \<Rightarrow> continue chess')"

definition fromEngine ::
  "'g RulesEngine \<Rightarrow> StockfishEngine \<Rightarrow> string \<Rightarrow> nat \<Rightarrow> real \<Rightarrow> string Outcome \<Rightarrow> 'g
     \<Rightarrow> GameMove option Outcome \<times> 'g" where
  "fromEngine R E currentFen difficulty randFallback answer chess =
     finish R randFallback (askEngine R E currentFen chess difficulty answer)
       (\<lambda>chess'. (Returns None, chess'))"

definition fromLearned ::
  "'g RulesEngine \<Rightarrow> ChessLearningService \<Rightarrow> StockfishEngine \<Rightarrow> string \<Rightarrow> nat \<Rightarrow> real \<Rightarrow> real
     \<Rightarrow> string Outcome \<Rightarrow> 'g \<Rightarrow> GameMove option Outcome \<times> 'g" where
  "fromLearned R L E currentFen difficulty randLearn randFallback answer chess =
     finish R randFallback (tryLearned R L currentFen chess difficulty randLearn)
       (fromEngine R E currentFen difficulty randFallback answer)"

definition makeAIMove ::
  "'g RulesEngine \<Rightarrow> ChessLearningService \<Rightarrow> StockfishEngine \<Rightarrow> 'g \<Rightarrow> nat \<Rightarrow> real \<Rightarrow> real
     \<Rightarrow> real \<Rightarrow> string Outcome \<Rightarrow> GameMove option Outcome \<times> 'g" where
  "makeAIMove R L E chess difficulty randBook randLearn randFallback answer =
     finish R randFallback (tryBook R L chess randBook)
       (fromLearned R L E (fenOf R chess) difficulty randLearn randFallback answer)"

section \<open>A rules engine for examples\<close>

text \<open>
  An instance of the rules engine that knows one line of play, given as a table of
  moves (SAN, origin, destination) with the position after each. Its state is the
  number of plies played. It accepts the move of the line, in either notation, and
  throws on anything else, as \<^verbatim>\<open>chess.js\<close> does on an illegal move. \<open>lineEngine\<close> plays
  1. a3 a6 2. b3 b6 ... 8. h3 h6 from the initial position, and \<open>lineRows\<close> is that
  line as rows of the table \<^verbatim>\<open>moves\<close>, none with an evaluation.
\<close>

definition startFen :: string where
  "startFen = ''rnbqkbnr/pppppppp/8/8/8/8/PPPPPPPP/RNBQKBNR w KQkq - 0 1''"

definition pawnLine :: "(string \<times> string \<times> string \<times> string) list" where
  "pawnLine =
    [(''a3'', ''a2'', ''a3'',
       ''rnbqkbnr/pppppppp/8/8/8/P7/1PPPPPPP/RNBQKBNR b KQkq - 0 1''),
     (''a6'', ''a7'', ''a6'',
       ''rnbqkbnr/1ppppppp/p7/8/8/P7/1PPPPPPP/RNBQKBNR w KQkq - 0 2''),
     (''b3'', ''b2'', ''b3'',
       ''rnbqkbnr/1ppppppp/p7/8/8/PP6/2PPPPPP/RNBQKBNR b KQkq - 0 2''),
     (''b6'', ''b7'', ''b6'',
       ''rnbqkbnr/2pppppp/pp6/8/8/PP6/2PPPPPP/RNBQKBNR w KQkq - 0 3''),
     (''c3'', ''c2'', ''c3'',
       ''rnbqkbnr/2pppppp/pp6/8/8/PPP5/3PPPPP/RNBQKBNR b KQkq - 0 3''),
     (''c6'', ''c7'', ''c6'',
       ''rnbqkbnr/3ppppp/ppp5/8/8/PPP5/3PPPPP/RNBQKBNR w KQkq - 0 4''),
     (''d3'', ''d2'', ''d3'',
       ''rnbqkbnr/3ppppp/ppp5/8/8/PPPP4/4PPPP/RNBQKBNR b KQkq - 0 4''),
     (''d6'', ''d7'', ''d6'',
       ''rnbqkbnr/4pppp/pppp4/8/8/PPPP4/4PPPP/RNBQKBNR w KQkq - 0 5''),
     (''e3'', ''e2'', ''e3'',
       ''rnbqkbnr/4pppp/pppp4/8/8/PPPPP3/5PPP/RNBQKBNR b KQkq - 0 5''),
     (''e6'', ''e7'', ''e6'',
       ''rnbqkbnr/5ppp/ppppp3/8/8/PPPPP3/5PPP/RNBQKBNR w KQkq - 0 6''),
     (''f3'', ''f2'', ''f3'',
       ''rnbqkbnr/5ppp/ppppp3/8/8/PPPPPP2/6PP/RNBQKBNR b KQkq - 0 6''),
     (''f6'', ''f7'', ''f6'',
       ''rnbqkbnr/6pp/pppppp2/8/8/PPPPPP2/6PP/RNBQKBNR w KQkq - 0 7''),
     (''g3'', ''g2'', ''g3'',
       ''rnbqkbnr/6pp/pppppp2/8/8/PPPPPPP1/7P/RNBQKBNR b KQkq - 0 7''),
     (''g6'', ''g7'', ''g6'',
       ''rnbqkbnr/7p/ppppppp1/8/8/PPPPPPP1/7P/RNBQKBNR w KQkq - 0 8''),
     (''h3'', ''h2'', ''h3'',
       ''rnbqkbnr/7p/ppppppp1/8/8/PPPPPPPP/8/RNBQKBNR b KQkq - 0 8''),
     (''h6'', ''h7'', ''h6'',
       ''rnbqkbnr/8/pppppppp/8/8/PPPPPPPP/8/RNBQKBNR w KQkq - 0 9'')]"

definition tableEngine ::
  "string \<Rightarrow> (string \<times> string \<times> string \<times> string) list \<Rightarrow> bool \<Rightarrow> nat RulesEngine" where
  "tableEngine start table mated =
     \<lparr>newChess = 0,
      fenOf = (\<lambda>n. if n = 0 then start
                   else (case drop (n - 1) table of
                           (san, from, to, after) # _ \<Rightarrow> after
                         | [] \<Rightarrow> start)),
      pgnOf = (\<lambda>n. js_join '' '' (map fst (take n table))),
      turnOf = (\<lambda>n. if even n then ''w'' else ''b''),
      historyOf = (\<lambda>n. map (\<lambda>(san, from, to, after).
                     \<lparr>mo_san = san, mo_from = from, mo_to = to, mo_promotion = None,
                      mo_after = Some after\<rparr>) (take n table)),
      legalMoves = (\<lambda>n. map fst (take 1 (drop n table))),
      applyMove = (\<lambda>n m. case drop n table of
                       [] \<Rightarrow> Throws n
                     | (san, from, to, after) # _ \<Rightarrow>
                         if m = san \<or> m = from @ to
                         then Moved \<lparr>mo_san = san, mo_from = from, mo_to = to,
                                     mo_promotion = None, mo_after = Some after\<rparr> (Suc n)
                         else Throws n),
      isGameOver = (\<lambda>n. mated \<and> length table \<le> n),
      isCheck = (\<lambda>n. mated \<and> length table \<le> n),
      isCheckmate = (\<lambda>n. mated \<and> length table \<le> n),
      isStalemate = (\<lambda>n. False),
      isDraw = (\<lambda>n. False)\<rparr>"

definition lineEngine :: "nat RulesEngine" where
  "lineEngine = tableEngine startFen pawnLine False"

text \<open>
  A \<^verbatim>\<open>Chess\<close> object constructed on the position after 1. f3 e6 2. g4 Qh4, where White
  is checkmated: the table is empty and there is no legal move.
\<close>

definition matedEngine :: "nat RulesEngine" where
  "matedEngine =
     tableEngine ''rnb1kbnr/pppp1ppp/4p3/8/6Pq/5P2/PPPPP2P/RNBQKBNR w KQkq - 1 3'' [] True"

text \<open>
  An instance that knows two of the moves of the initial position, 1. a3 and 1. h3, and
  rejects every other move, by throwing or by returning \<^verbatim>\<open>null\<close> as \<open>throwing\<close> says,
  and leaves its state untouched when it does. State 0 is the initial position, states
  1 and 2 the positions after the two moves.
\<close>

definition forkEngine :: "bool \<Rightarrow> nat RulesEngine" where
  "forkEngine throwing =
     \<lparr>newChess = 0,
      fenOf = (\<lambda>n. if n = 0 then startFen
                   else if n = 1
                   then ''rnbqkbnr/pppppppp/8/8/8/P7/1PPPPPPP/RNBQKBNR b KQkq - 0 1''
                   else ''rnbqkbnr/pppppppp/8/8/8/7P/PPPPPPP1/RNBQKBNR b KQkq - 0 1''),
      pgnOf = (\<lambda>n. if n = 0 then [] else if n = 1 then ''1. a3'' else ''1. h3''),
      turnOf = (\<lambda>n. if n = 0 then ''w'' else ''b''),
      historyOf = (\<lambda>n. if n = 0 then []
                   else if n = 1
                   then [\<lparr>mo_san = ''a3'', mo_from = ''a2'', mo_to = ''a3'', mo_promotion = None,
                          mo_after = Some ''rnbqkbnr/pppppppp/8/8/8/P7/1PPPPPPP/RNBQKBNR b KQkq - 0 1''\<rparr>]
                   else [\<lparr>mo_san = ''h3'', mo_from = ''h2'', mo_to = ''h3'', mo_promotion = None,
                          mo_after = Some ''rnbqkbnr/pppppppp/8/8/8/7P/PPPPPPP1/RNBQKBNR b KQkq - 0 1''\<rparr>]),
      legalMoves = (\<lambda>n. if n = 0 then [''a3'', ''h3''] else []),
      applyMove = (\<lambda>n m.
         if n = 0 \<and> (m = ''a3'' \<or> m = ''a2a3'')
         then Moved \<lparr>mo_san = ''a3'', mo_from = ''a2'', mo_to = ''a3'', mo_promotion = None,
                     mo_after = Some ''rnbqkbnr/pppppppp/8/8/8/P7/1PPPPPPP/RNBQKBNR b KQkq - 0 1''\<rparr> 1
         else if n = 0 \<and> (m = ''h3'' \<or> m = ''h2h3'')
         then Moved \<lparr>mo_san = ''h3'', mo_from = ''h2'', mo_to = ''h3'', mo_promotion = None,
                     mo_after = Some ''rnbqkbnr/pppppppp/8/8/8/7P/PPPPPPP1/RNBQKBNR b KQkq - 0 1''\<rparr> 2
         else if throwing then Throws n else Null n),
      isGameOver = (\<lambda>n. False),
      isCheck = (\<lambda>n. False),
      isCheckmate = (\<lambda>n. False),
      isStalemate = (\<lambda>n. False),
      isDraw = (\<lambda>n. False)\<rparr>"

text \<open>
  Learning data for the initial position only: the book holds the given candidates, each
  seen once, and the position database the given moves. A client made ready by the
  engine's \<^verbatim>\<open>readyok\<close>.
\<close>

definition startKey :: string where
  "startKey = ''rnbqkbnr/pppppppp/8/8/8/8/PPPPPPPP/RNBQKBNR w KQkq -''"

definition learnedStart :: "string list \<Rightarrow> string list \<Rightarrow> ChessLearningService" where
  "learnedStart bookMoves databaseMoves =
     \<lparr>openingBook =
        (if bookMoves = [] then Map.empty
         else [startKey \<mapsto>
                 map (\<lambda>m. \<lparr>om_fen = startKey, move = m, count = 1, winRate = 1,
                            avgEvaluation = 0\<rparr>) bookMoves]),
      positionDatabase =
        (if databaseMoves = [] then Map.empty
         else [startKey \<mapsto>
                 \<lparr>pd_fen = startKey, bestMoves = databaseMoves, evaluation = 0,
                  gamesPlayed = length databaseMoves\<rparr>])\<rparr>"

definition readyEngine :: StockfishEngine where
  "readyEngine = handleLine (initEngine SpawnReturns) ''readyok''"

definition lineRows :: "MoveRow list" where
  "lineRows =
     map (\<lambda>(k, (san, from, to, after)).
            \<lparr>moveNumber = int k, side = (if even k then ''white'' else ''black''),
             row_san = san, row_uci = from @ to, row_evaluation = None\<rparr>)
       (enumerate 0 pawnLine)"

definition lineKey :: "nat \<Rightarrow> string" where
  "lineKey k = normalizePosition (fenOf lineEngine k)"

definition lineStep ::
  "(string \<Rightarrow> real) \<Rightarrow> bool \<Rightarrow> bool \<Rightarrow> bool \<Rightarrow> ChessLearningService \<Rightarrow> nat
     \<Rightarrow> ChessLearningService" where
  "lineStep parseFloat whiteWon blackWon draw s k =
     learnOne parseFloat whiteWon blackWon draw k (lineKey k) (lineRows ! k) s"

text \<open>A client made ready by the engine, with one \<^verbatim>\<open>evaluate\<close> call pending.\<close>

definition awaitingEvaluation :: StockfishEngine where
  "awaitingEvaluation =
     snd (evaluatePosition (handleLine (initEngine SpawnReturns) ''readyok'')
            ''rnbqkbnr/pppppppp/8/8/8/8/PPPPPPPP/RNBQKBNR w KQkq - 0 1'' 15)"


text \<open>
  An instance of the rules engine that breaks the contract \<open>rejectsCleanly\<close>: it throws
  on every move and counts the call in its state.
\<close>

definition sloppyEngine :: "nat RulesEngine" where
  "sloppyEngine = (forkEngine True)\<lparr>applyMove := (\<lambda>n m. Throws (Suc n))\<rparr>"

section \<open>Facts about splitting and joining\<close>

lemma js_split_not_Nil: "js_split c s \<noteq> []"
  by (induction s) (auto split: list.splits)

lemma js_split_pieces: "p \<in> set (js_split c s) \<Longrightarrow> c \<notin> set p"
proof (induction s arbitrary: p)
  case Nil
  then show ?case by simp
next
  case (Cons x xs)
  show ?case
  proof (cases "x = c")
    case True
    with Cons show ?thesis by auto
  next
    case False
    obtain q qs where q: "js_split c xs = q # qs"
      using js_split_not_Nil [of c xs] by (cases "js_split c xs") auto
    with False Cons.prems have "p = x # q \<or> p \<in> set qs" by auto
    then show ?thesis
    proof
      assume "p = x # q"
      moreover have "c \<notin> set q" using Cons.IH [of q] q by simp
      ultimately show ?thesis using False by auto
    next
      assume "p \<in> set qs"
      then show ?thesis using Cons.IH [of p] q by simp
    qed
  qed
qed

lemma js_split_piece: "c \<notin> set p \<Longrightarrow> js_split c p = [p]"
  by (induction p) auto

lemma js_split_append:
  "c \<notin> set p \<Longrightarrow> js_split c (p @ c # s) = p # js_split c s"
  by (induction p) auto

lemma js_split_join:
  "ps \<noteq> [] \<Longrightarrow> \<forall>p \<in> set ps. c \<notin> set p \<Longrightarrow> js_split c (js_join [c] ps) = ps"
proof (induction "[c]" ps rule: js_join.induct)
  case 1
  then show ?case by simp
next
  case (2 p)
  then show ?case by (simp add: js_split_piece)
next
  case (3 p q ps)
  then show ?case by (simp add: js_split_append)
qed

lemma normalizePosition_join:
  assumes "ps \<noteq> []" and "\<forall>p \<in> set ps. CHR '' '' \<notin> set p"
  shows "normalizePosition (js_join '' '' ps) = js_join '' '' (take 4 ps)"
  using js_split_join [OF assms] by (simp add: normalizePosition_def)

section \<open>Facts about double arithmetic\<close>

lemma normalise_numeral:
  "normalise (numeral k) m e =
     (if m < 2 ^ 52 then normalise (pred_numeral k) (m * 2) (e - 1)
      else if 2 ^ 53 \<le> m then normalise (pred_numeral k) (m / 2) (e + 1)
      else (m, e))"
  by (simp add: numeral_eq_Suc)

lemmas fl_eval = fl_def normalise_numeral roundHalfEven_def scale_def

lemma fl_bounds:
  "fl (1 / 10) = 7205759403792794 / 2 ^ 56"
  "fl (1 / 4) = 1 / 4" "fl (1 / 2) = 1 / 2" "fl 1 = 1" "fl 2 = 2"
  by (simp_all add: fl_eval)

lemma classify_num:
  "classifyMove (actual\<lparr>score := Num a\<rparr>) (reference\<lparr>score := Num b\<rparr>) =
     (let d = \<bar>fl (a - b)\<bar> in
      if d \<le> fl (1 / 10) then ''best''
      else if d \<le> 1 / 4 then ''excellent''
      else if d \<le> 1 / 2 then ''good''
      else if d \<le> 1 then ''inaccuracy''
      else if d \<le> 2 then ''mistake''
      else ''blunder'')"
  using fl_bounds(2-5)
  by (simp add: classifyMove_def jsSub_def jsAbs_def jsLe_def lit_def Let_def)



section \<open>Facts about the running means\<close>


















section \<open>Facts about the book move\<close>



section \<open>Facts about ingesting the example line\<close>

lemma length_pawnLine: "length pawnLine = 16"
  by (simp add: pawnLine_def)

lemma length_lineRows: "length lineRows = 16"
  by (simp add: lineRows_def length_pawnLine)

lemma lineRows_nth:
  assumes "n < 16" and "pawnLine ! n = (san, from, to, after)"
  shows "lineRows ! n =
     \<lparr>moveNumber = int n, side = (if even n then ''white'' else ''black''),
      row_san = san, row_uci = from @ to, row_evaluation = None\<rparr>"
  using assms by (simp add: lineRows_def length_pawnLine nth_enumerate_eq)

lemma lineEngine_accepts:
  assumes "n < 16"
  shows "\<exists>obj. applyMove lineEngine n (row_san (lineRows ! n)) = Moved obj (Suc n)"
proof -
  obtain san "from" to after where p: "pawnLine ! n = (san, from, to, after)"
    by (cases "pawnLine ! n") auto
  have "drop n pawnLine = pawnLine ! n # drop (Suc n) pawnLine"
    using assms by (simp add: Cons_nth_drop_Suc length_pawnLine)
  then show ?thesis
    using p lineRows_nth [OF assms p] by (simp add: lineEngine_def tableEngine_def)
qed

lemma learnMoves_line_step:
  assumes "n < 16"
  shows "learnMoves lineEngine pf ww bw d n (drop n lineRows) n s =
         learnMoves lineEngine pf ww bw d (Suc n) (drop (Suc n) lineRows) (Suc n)
           (lineStep pf ww bw d s n)"
proof -
  have "drop n lineRows = lineRows ! n # drop (Suc n) lineRows"
    using assms by (simp add: Cons_nth_drop_Suc length_lineRows)
  moreover obtain obj where "applyMove lineEngine n (row_san (lineRows ! n)) = Moved obj (Suc n)"
    using lineEngine_accepts [OF assms] by blast
  ultimately show ?thesis
    by (simp add: lineStep_def lineKey_def Let_def)
qed

lemma learnMoves_line_run:
  "n \<le> 16 \<Longrightarrow>
   learnMoves lineEngine pf ww bw d n (drop n lineRows) n s =
     foldl (lineStep pf ww bw d) s [n..<16]"
proof (induction "16 - n" arbitrary: n s)
  case 0
  then show ?case by (simp add: length_lineRows)
next
  case (Suc m)
  then have n: "n < 16" by simp
  have "[n..<16] = n # [Suc n..<16]" using n by (simp add: upt_conv_Cons)
  moreover have "learnMoves lineEngine pf ww bw d (Suc n) (drop (Suc n) lineRows) (Suc n)
      (lineStep pf ww bw d s n) = foldl (lineStep pf ww bw d) (lineStep pf ww bw d s n) [Suc n..<16]"
    using Suc by (intro Suc.hyps(1)) simp_all
  ultimately show ?case using learnMoves_line_step [OF n] by simp
qed

lemma openingBook_addToPositionDatabase:
  "openingBook (addToPositionDatabase s fen mv ev) = openingBook s"
  by (simp add: addToPositionDatabase_def Let_def split: option.splits)

lemma positionDatabase_addToOpeningBook:
  "positionDatabase (addToOpeningBook s fen mv ww bw d sd ev) = positionDatabase s"
  by (simp add: addToOpeningBook_def Let_def)

lemma openingBook_learnOne_other:
  "(i < 15 \<longrightarrow> pk \<noteq> key) \<Longrightarrow>
   openingBook (learnOne pf ww bw d i pk mv s) key = openingBook s key"
  by (auto simp: learnOne_def maxOpeningMoves_def openingBook_addToPositionDatabase
        addToOpeningBook_def Let_def)

lemma positionDatabase_learnOne_other:
  "pk \<noteq> key \<Longrightarrow>
   positionDatabase (learnOne pf ww bw d i pk mv s) key = positionDatabase s key"
  by (simp add: learnOne_def positionDatabase_addToOpeningBook
        addToPositionDatabase_def Let_def split: option.splits)

lemma openingBook_line_other:
  "\<forall>k \<in> set ks. k < 15 \<longrightarrow> lineKey k \<noteq> key \<Longrightarrow>
   openingBook (foldl (lineStep pf ww bw d) s ks) key = openingBook s key"
  by (induction ks arbitrary: s) (simp_all add: lineStep_def openingBook_learnOne_other)

lemma positionDatabase_line_other:
  "\<forall>k \<in> set ks. lineKey k \<noteq> key \<Longrightarrow>
   positionDatabase (foldl (lineStep pf ww bw d) s ks) key = positionDatabase s key"
  by (induction ks arbitrary: s) (simp_all add: lineStep_def positionDatabase_learnOne_other)

lemma lineKeys:
  "map lineKey [0..<16] =
     [''rnbqkbnr/pppppppp/8/8/8/8/PPPPPPPP/RNBQKBNR w KQkq -'',
      ''rnbqkbnr/pppppppp/8/8/8/P7/1PPPPPPP/RNBQKBNR b KQkq -'',
      ''rnbqkbnr/1ppppppp/p7/8/8/P7/1PPPPPPP/RNBQKBNR w KQkq -'',
      ''rnbqkbnr/1ppppppp/p7/8/8/PP6/2PPPPPP/RNBQKBNR b KQkq -'',
      ''rnbqkbnr/2pppppp/pp6/8/8/PP6/2PPPPPP/RNBQKBNR w KQkq -'',
      ''rnbqkbnr/2pppppp/pp6/8/8/PPP5/3PPPPP/RNBQKBNR b KQkq -'',
      ''rnbqkbnr/3ppppp/ppp5/8/8/PPP5/3PPPPP/RNBQKBNR w KQkq -'',
      ''rnbqkbnr/3ppppp/ppp5/8/8/PPPP4/4PPPP/RNBQKBNR b KQkq -'',
      ''rnbqkbnr/4pppp/pppp4/8/8/PPPP4/4PPPP/RNBQKBNR w KQkq -'',
      ''rnbqkbnr/4pppp/pppp4/8/8/PPPPP3/5PPP/RNBQKBNR b KQkq -'',
      ''rnbqkbnr/5ppp/ppppp3/8/8/PPPPP3/5PPP/RNBQKBNR w KQkq -'',
      ''rnbqkbnr/5ppp/ppppp3/8/8/PPPPPP2/6PP/RNBQKBNR b KQkq -'',
      ''rnbqkbnr/6pp/pppppp2/8/8/PPPPPP2/6PP/RNBQKBNR w KQkq -'',
      ''rnbqkbnr/6pp/pppppp2/8/8/PPPPPPP1/7P/RNBQKBNR b KQkq -'',
      ''rnbqkbnr/7p/ppppppp1/8/8/PPPPPPP1/7P/RNBQKBNR w KQkq -'',
      ''rnbqkbnr/7p/ppppppp1/8/8/PPPPPPPP/8/RNBQKBNR b KQkq -'']"
  by (simp add: lineKey_def lineEngine_def tableEngine_def pawnLine_def startFen_def
        normalizePosition_def upt_conv_Cons)


lemma newChess_lineEngine: "newChess lineEngine = 0"
  by (simp add: lineEngine_def tableEngine_def)

lemma upt_16: "[0..<16] = [0..<15] @ [15::nat]"
  by (simp add: upt_conv_Cons)

lemma lineKey_15: "lineKey 15 = ''rnbqkbnr/7p/ppppppp1/8/8/PPPPPPPP/8/RNBQKBNR b KQkq -''"
proof -
  have "map lineKey [0..<16] ! 15 = lineKey (0 + 15)"
    by (rule nth_map_upt) simp
  then show ?thesis unfolding lineKeys by simp
qed

lemma lineKey_distinct: "\<forall>k \<in> set [0..<15]. lineKey k \<noteq> lineKey 15"
proof -
  have "distinct (map lineKey [0..<16])"
    unfolding lineKeys by simp
  then have "inj_on lineKey (set [0..<16])"
    by (simp add: distinct_map)
  then show ?thesis
    by (auto dest: inj_onD)
qed


section \<open>Facts about the engine client\<close>

lemma evaluationCalls_append:
  "evaluationCalls (rs @ rs') = evaluationCalls rs @ evaluationCalls rs'"
  by (induction rs rule: evaluationCalls.induct) simp_all

lemma info_line_kind:
  assumes "startsWith line ''info''"
  shows "line \<noteq> ''uciok''" and "line \<noteq> ''readyok''" and "\<not> startsWith line ''bestmove''"
proof -
  from assms have t: "take (length ''info'') line = ''info''"
    unfolding startsWith_def .
  then show "line \<noteq> ''uciok''" and "line \<noteq> ''readyok''" by auto
  show "\<not> startsWith line ''bestmove''"
  proof
    assume "startsWith line ''bestmove''"
    then have "take (length ''bestmove'') line = ''bestmove''"
      unfolding startsWith_def .
    then have "take (length ''info'') (take (length ''bestmove'') line) = ''best''"
      by simp
    with t show False by simp
  qed
qed

lemma handleLine_shallow:
  assumes "\<not> deepFrame line"
  shows "resolveMap (handleLine s line) ''evaluation'' = resolveMap s ''evaluation''"
    and "evaluationCalls (resolutions (handleLine s line)) = evaluationCalls (resolutions s)"
  using assms
  by (auto simp: handleLine_def parseEvaluation_def deepFrame_def sendCommand_def Let_def
        evaluationCalls_append split: option.splits)

lemma handleLine_idle:
  assumes "resolveMap s ''evaluation'' = None"
  shows "resolveMap (handleLine s line) ''evaluation'' = None"
    and "evaluationCalls (resolutions (handleLine s line)) = evaluationCalls (resolutions s)"
  using assms
  by (auto simp: handleLine_def parseEvaluation_def sendCommand_def Let_def
        evaluationCalls_append split: option.splits)

lemma handleLine_deep:
  assumes "deepFrame line" and "resolveMap s ''evaluation'' = Some k"
  shows "resolveMap (handleLine s line) ''evaluation'' = None"
    and "evaluationCalls (resolutions (handleLine s line)) =
           evaluationCalls (resolutions s) @ [(k, frameOfVars (parseLine line))]"
  using assms info_line_kind [of line]
  by (auto simp: handleLine_def parseEvaluation_def deepFrame_def Let_def
        evaluationCalls_append)

lemma shallow_lines:
  "\<forall>l \<in> set ls. \<not> deepFrame l \<Longrightarrow>
   resolveMap (foldl handleLine s ls) ''evaluation'' = resolveMap s ''evaluation''
 \<and> evaluationCalls (resolutions (foldl handleLine s ls)) = evaluationCalls (resolutions s)"
  by (induction ls arbitrary: s) (simp_all add: handleLine_shallow)

lemma idle_lines:
  "resolveMap s ''evaluation'' = None \<Longrightarrow>
   resolveMap (foldl handleLine s ls) ''evaluation'' = None
 \<and> evaluationCalls (resolutions (foldl handleLine s ls)) = evaluationCalls (resolutions s)"
  by (induction ls arbitrary: s) (simp_all add: handleLine_idle)

lemma awaiting_pending: "resolveMap awaitingEvaluation ''evaluation'' = Some 0"
  by (simp add: awaitingEvaluation_def evaluatePosition_def handleLine_def initEngine_def
        sendCommand_def Let_def)

lemma awaiting_calls: "evaluationCalls (resolutions awaitingEvaluation) = []"
  by (simp add: awaitingEvaluation_def evaluatePosition_def handleLine_def initEngine_def
        sendCommand_def Let_def)

lemma shallow_example: "\<not> deepFrame ''info depth 9 score cp -20 pv d2d4''"
  by (simp add: deepFrame_def parseLine_def parseIntAt_def partAt_def parseInt_def
        startsWith_def isWhiteSpace_def digitOf_def digitsToNat_def atLeastTen_def Let_def)

lemma deep_example:
  "deepFrame ''info depth 12 seldepth 18 score cp 31 nodes 1000 pv e2e4 e7e5''"
  "frameOfVars (parseLine ''info depth 12 seldepth 18 score cp 31 nodes 1000 pv e2e4 e7e5'') =
     \<lparr>frameScore = Num (fl (31 / 100)), frameMate = None, frameBestMove = ''e2e4'',
      framePv = [''e2e4'', ''e7e5''], frameDepth = Num 12\<rparr>"
  by (simp_all add: deepFrame_def parseLine_def parseIntAt_def partAt_def parseInt_def
        startsWith_def isWhiteSpace_def digitOf_def digitsToNat_def atLeastTen_def
        frameOfVars_def initialVars_def Let_def)

lemma error_event_leaves_request_pending:
  "fst (getBestMove (onError (initEngine SpawnReturns)) fen timeMs) = Pending"
  by (simp add: getBestMove_def initEngine_def onError_def sendCommand_def Let_def)

section \<open>Facts about the game service\<close>

lemma startKey_normal: "normalizePosition startFen = startKey"
  by (simp add: normalizePosition_def startFen_def startKey_def)

lemma readyEngine_pending: "awaitBestMove readyEngine fen timeMs answer = answer"
  by (simp add: awaitBestMove_def getBestMove_def readyEngine_def handleLine_def initEngine_def
        sendCommand_def Let_def)

lemma fork_simps:
  "fenOf (forkEngine t) 0 = startFen"
  "historyOf (forkEngine t) 0 = []"
  "legalMoves (forkEngine t) 0 = [''a3'', ''h3'']"
  "applyMove (forkEngine t) 0 ''e2e5'' = (if t then Throws 0 else Null 0)"
  "applyMove (forkEngine t) 0 ''a2a3'' =
     Moved \<lparr>mo_san = ''a3'', mo_from = ''a2'', mo_to = ''a3'', mo_promotion = None,
            mo_after = Some ''rnbqkbnr/pppppppp/8/8/8/P7/1PPPPPPP/RNBQKBNR b KQkq - 0 1''\<rparr> 1"
  "applyMove (forkEngine t) 0 ''h2h3'' =
     Moved \<lparr>mo_san = ''h3'', mo_from = ''h2'', mo_to = ''h3'', mo_promotion = None,
            mo_after = Some ''rnbqkbnr/pppppppp/8/8/8/7P/PPPPPPP1/RNBQKBNR b KQkq - 0 1''\<rparr> 2"
  "applyMove (forkEngine t) 0 ''a3'' =
     Moved \<lparr>mo_san = ''a3'', mo_from = ''a2'', mo_to = ''a3'', mo_promotion = None,
            mo_after = Some ''rnbqkbnr/pppppppp/8/8/8/P7/1PPPPPPP/RNBQKBNR b KQkq - 0 1''\<rparr> 1"
  "applyMove (forkEngine t) 0 ''h3'' =
     Moved \<lparr>mo_san = ''h3'', mo_from = ''h2'', mo_to = ''h3'', mo_promotion = None,
            mo_after = Some ''rnbqkbnr/pppppppp/8/8/8/7P/PPPPPPP1/RNBQKBNR b KQkq - 0 1''\<rparr> 2"
  "fenOf (forkEngine t) 1 = ''rnbqkbnr/pppppppp/8/8/8/P7/1PPPPPPP/RNBQKBNR b KQkq - 0 1''"
  "fenOf (forkEngine t) 2 = ''rnbqkbnr/pppppppp/8/8/8/7P/PPPPPPP1/RNBQKBNR b KQkq - 0 1''"
  "fenOf (forkEngine t) (Suc 0) = ''rnbqkbnr/pppppppp/8/8/8/P7/1PPPPPPP/RNBQKBNR b KQkq - 0 1''"
  by (simp_all add: forkEngine_def)


lemma book_e2e5: "getBookMove (learnedStart [''e2e5''] dm) r startFen = Some ''e2e5''"
  by (simp add: getBookMove_def startKey_normal learnedStart_def scoreMoves_def pickScored_def)

lemma common_moves:
  "dm \<noteq> [] \<Longrightarrow> getCommonMoves (learnedStart bm dm) startFen = dm"
  "dm \<noteq> [] \<Longrightarrow> hasLearnedPosition (learnedStart bm dm) startFen"
  by (simp_all add: getCommonMoves_def hasLearnedPosition_def startKey_normal learnedStart_def)

lemma random_h3: "randomLegalMove (forkEngine t) 0 0.9 =
   (Returns (Some \<lparr>gm_san = ''h3'', gm_uci = ''h2h3'',
      gm_fen = ''rnbqkbnr/pppppppp/8/8/8/7P/PPPPPPP1/RNBQKBNR b KQkq - 0 1''\<rparr>), 2)"
proof -
  have "\<lfloor>(0.9::real) * 2\<rfloor> = 1" by (simp add: floor_eq_iff)
  then show ?thesis
    by (simp add: randomLegalMove_def fork_simps uciOf_def Let_def)
qed

text \<open>
  A candidate of the book that the rules engine rejects by returning \<^verbatim>\<open>null\<close> lets the
  position database and then the engine decide.
\<close>

lemma book_null_falls_through:
  assumes "length (historyOf R chess) < 15"
    and "getBookMove L randBook (fenOf R chess) = Some candidate"
    and "candidate \<noteq> []"
    and "applyMove R chess candidate = Null chess'"
  shows "makeAIMove R L E chess difficulty randBook randLearn randFallback answer =
           fromLearned R L E (fenOf R chess) difficulty randLearn randFallback answer chess'"
  using assms by (simp add: makeAIMove_def tryBook_def finish_def Let_def)

text \<open>
  Without the contract a rejected move can change the state: \<open>makeMove\<close> then returns
  \<^verbatim>\<open>null\<close> on a state that is not the one before the call.
\<close>

lemma makeMove_sloppy_engine:
  "fst (makeMove sloppyEngine 0 mv) = None \<and> snd (makeMove sloppyEngine 0 mv) = 1"
  by (simp add: makeMove_def sloppyEngine_def)

section \<open>Claims about position keys\<close>

text \<open>
  C7. Two full FEN strings with the same piece placement, side to move, castling rights
  and en-passant target, whatever their remaining (counter) fields are, are normalised
  to the same key, and that key consists of exactly the four shared fields joined by
  single spaces.
\<close>

theorem normalizePosition_drops_counters:
  assumes "\<forall>f \<in> set ([placement, turn, castling, ep] @ counters1 @ counters2). CHR '' '' \<notin> set f"
  shows "normalizePosition (js_join '' '' ([placement, turn, castling, ep] @ counters1))
           = normalizePosition (js_join '' '' ([placement, turn, castling, ep] @ counters2))
       \<and> normalizePosition (js_join '' '' ([placement, turn, castling, ep] @ counters1))
           = js_join '' '' [placement, turn, castling, ep]"
proof -
  have "normalizePosition (js_join '' '' ([placement, turn, castling, ep] @ cs))
          = js_join '' '' [placement, turn, castling, ep]"
    if "\<forall>f \<in> set cs. CHR '' '' \<notin> set f" for cs
    using that assms
    normalizePosition_join [of "[placement, turn, castling, ep] @ cs"]
    by simp
  from this [of counters1] this [of counters2] assms show ?thesis by simp
qed

theorem normalizePosition_drops_counters_witness:
  "normalizePosition ''rnbqkbnr/pppppppp/8/8/4P3/8/PPPP1PPP/RNBQKBNR b KQkq e3 0 1''
     = normalizePosition ''rnbqkbnr/pppppppp/8/8/4P3/8/PPPP1PPP/RNBQKBNR b KQkq e3 7 42''
   \<and> normalizePosition ''rnbqkbnr/pppppppp/8/8/4P3/8/PPPP1PPP/RNBQKBNR b KQkq e3 0 1''
     = ''rnbqkbnr/pppppppp/8/8/4P3/8/PPPP1PPP/RNBQKBNR b KQkq e3''"
  using normalizePosition_drops_counters
    [of "''rnbqkbnr/pppppppp/8/8/4P3/8/PPPP1PPP/RNBQKBNR''" "''b''" "''KQkq''" "''e3''"
        "[''0'', ''1'']" "[''7'', ''42'']"]
  by (simp add: normalizePosition_def)

text \<open>
  C10. Normalising is idempotent on every string.
\<close>

theorem normalizePosition_idempotent:
  "normalizePosition (normalizePosition s) = normalizePosition s"
proof -
  let ?ps = "take 4 (js_split (CHR '' '') s)"
  have ne: "?ps \<noteq> []"
    using js_split_not_Nil [of "CHR '' ''" s] by (cases "js_split (CHR '' '') s") auto
  have free: "\<forall>p \<in> set ?ps. CHR '' '' \<notin> set p"
    using js_split_pieces [of _ "CHR '' ''" s] by (auto dest: in_set_takeD)
  have "normalizePosition (js_join '' '' ?ps) = js_join '' '' (take 4 ?ps)"
    by (rule normalizePosition_join [OF ne free])
  then show ?thesis by (simp add: normalizePosition_def)
qed


section \<open>Claims about the engine client\<close>

text \<open>
  C2 (as amended). For two evaluations whose scores are numbers, let \<open>d\<close> be the
  absolute value of the difference of the scores as the doubles give it, that is, the
  rounded difference. \<open>classifyMove\<close> answers \<open>best\<close> exactly when \<open>d\<close> is at most the
  double nearest to 0.1, \<open>excellent\<close> exactly when \<open>d\<close> is above that and at most 0.25,
  \<open>good\<close> exactly when \<open>0.25 < d \<le> 0.5\<close>, \<open>inaccuracy\<close> exactly when \<open>0.5 < d \<le> 1\<close>,
  \<open>mistake\<close> exactly when \<open>1 < d \<le> 2\<close> and \<open>blunder\<close> exactly when \<open>d > 2\<close>; the score
  2.01 against 0 is a blunder. When a score is \<^verbatim>\<open>NaN\<close> the answer is \<open>blunder\<close>.
\<close>

theorem classifyMove_double_buckets:
  "(let d = \<bar>fl (a - b)\<bar>;
        result = classifyMove (actual\<lparr>score := Num a\<rparr>) (reference\<lparr>score := Num b\<rparr>)
    in (result = ''best'') = (d \<le> fl 0.1)
     \<and> (result = ''excellent'') = (fl 0.1 < d \<and> d \<le> 0.25)
     \<and> (result = ''good'') = (0.25 < d \<and> d \<le> 0.5)
     \<and> (result = ''inaccuracy'') = (0.5 < d \<and> d \<le> 1)
     \<and> (result = ''mistake'') = (1 < d \<and> d \<le> 2)
     \<and> (result = ''blunder'') = (2 < d))
 \<and> classifyMove (actual\<lparr>score := Num (fl 2.01)\<rparr>) (reference\<lparr>score := Num 0\<rparr>) = ''blunder''
 \<and> classifyMove (actual\<lparr>score := NaN\<rparr>) reference = ''blunder''
 \<and> classifyMove actual (reference\<lparr>score := NaN\<rparr>) = ''blunder''"
proof -
  have t: "fl (1 / 10) < 1 / 4"
    by (simp add: fl_bounds)
  have buckets: "(let d = \<bar>fl (a - b)\<bar>;
        result = classifyMove (actual\<lparr>score := Num a\<rparr>) (reference\<lparr>score := Num b\<rparr>)
    in (result = ''best'') = (d \<le> fl 0.1)
     \<and> (result = ''excellent'') = (fl 0.1 < d \<and> d \<le> 0.25)
     \<and> (result = ''good'') = (0.25 < d \<and> d \<le> 0.5)
     \<and> (result = ''inaccuracy'') = (0.5 < d \<and> d \<le> 1)
     \<and> (result = ''mistake'') = (1 < d \<and> d \<le> 2)
     \<and> (result = ''blunder'') = (2 < d))"
    using t unfolding classify_num Let_def by auto
  have far: "classifyMove (actual\<lparr>score := Num (fl 2.01)\<rparr>) (reference\<lparr>score := Num 0\<rparr>)
      = ''blunder''"
    by (simp add: classifyMove_def jsSub_def jsAbs_def jsLe_def lit_def fl_eval)
  have nan: "classifyMove (actual\<lparr>score := NaN\<rparr>) reference = ''blunder''"
    "classifyMove actual (reference\<lparr>score := NaN\<rparr>) = ''blunder''"
    by (simp_all add: classifyMove_def jsSub_def jsAbs_def jsLe_def split: parsed.splits)
  from buckets far nan show ?thesis by blast
qed

text \<open>
  The claim as stated fails at a boundary: the scores of 110 and of 100 centipawns
  differ by exactly 0.10, and the doubles give a difference above the double 0.1, so the
  move is \<open>excellent\<close> and not \<open>best\<close>. It fails for a score that is \<^verbatim>\<open>NaN\<close> as well,
  which is a \<open>blunder\<close> though no difference exceeds 2.
\<close>

theorem classifyMove_boundary_counterexample:
  "classifyMove
     \<lparr>score = Num (fl (110 / 100)), mate = None, bestMove = ''e2e4'', pv = [''e2e4''], depth = 12\<rparr>
     \<lparr>score = Num (fl (100 / 100)), mate = None, bestMove = ''d2d4'', pv = [''d2d4''], depth = 12\<rparr>
   = ''excellent''
 \<and> \<bar>(110 :: real) / 100 - 100 / 100\<bar> \<le> 0.10
 \<and> classifyMove
     \<lparr>score = NaN, mate = None, bestMove = ''e2e4'', pv = [''e2e4''], depth = 12\<rparr>
     \<lparr>score = Num 0, mate = None, bestMove = ''d2d4'', pv = [''d2d4''], depth = 12\<rparr>
   = ''blunder''"
  by (simp add: classifyMove_def jsSub_def jsAbs_def jsLe_def lit_def fl_eval)

text \<open>
  C4. Let an \<^verbatim>\<open>evaluate\<close> call be pending while the client handles a sequence of
  output lines. As long as no line is an evaluation frame of depth at least 10, no
  resolver of an \<^verbatim>\<open>evaluate\<close> call is called and the call stays pending. The first
  frame of depth at least 10 resolves the call, with the evaluation parsed from that
  frame, and the lines that come after it resolve nothing more.
\<close>

theorem evaluate_resolved_by_first_deep_frame:
  assumes "resolveMap s ''evaluation'' = Some k"
  shows "((\<forall>l \<in> set ls. \<not> deepFrame l) \<longrightarrow>
            resolveMap (foldl handleLine s ls) ''evaluation'' = Some k
          \<and> evaluationCalls (resolutions (foldl handleLine s ls)) = evaluationCalls (resolutions s))
       \<and> ((\<forall>l \<in> set before. \<not> deepFrame l) \<and> deepFrame frame \<longrightarrow>
            resolveMap (foldl handleLine s (before @ frame # after)) ''evaluation'' = None
          \<and> evaluationCalls (resolutions (foldl handleLine s (before @ frame # after))) =
              evaluationCalls (resolutions s) @ [(k, frameOfVars (parseLine frame))])"
proof (intro conjI impI)
  assume "\<forall>l \<in> set ls. \<not> deepFrame l"
  from shallow_lines [OF this, of s] assms
  show "resolveMap (foldl handleLine s ls) ''evaluation'' = Some k"
    and "evaluationCalls (resolutions (foldl handleLine s ls)) = evaluationCalls (resolutions s)"
    by simp_all
next
  assume a: "(\<forall>l \<in> set before. \<not> deepFrame l) \<and> deepFrame frame"
  let ?s1 = "foldl handleLine s before"
  let ?s2 = "handleLine ?s1 frame"
  from a shallow_lines [of before s] assms
  have s1: "resolveMap ?s1 ''evaluation'' = Some k"
    "evaluationCalls (resolutions ?s1) = evaluationCalls (resolutions s)" by simp_all
  from a handleLine_deep [OF _ s1(1), of frame]
  have s2: "resolveMap ?s2 ''evaluation'' = None"
    "evaluationCalls (resolutions ?s2) = evaluationCalls (resolutions ?s1) @ [(k, frameOfVars (parseLine frame))]"
    by simp_all
  from idle_lines [OF s2(1), of after] s2 s1
  show "resolveMap (foldl handleLine s (before @ frame # after)) ''evaluation'' = None"
    and "evaluationCalls (resolutions (foldl handleLine s (before @ frame # after))) =
              evaluationCalls (resolutions s) @ [(k, frameOfVars (parseLine frame))]"
    by simp_all
qed


theorem evaluate_resolved_by_first_deep_frame_witness:
  "resolveMap (foldl handleLine awaitingEvaluation [''info depth 9 score cp -20 pv d2d4''])
     ''evaluation'' = Some 0
 \<and> evaluationCalls (resolutions
      (foldl handleLine awaitingEvaluation [''info depth 9 score cp -20 pv d2d4''])) = []
 \<and> resolveMap (foldl handleLine awaitingEvaluation
      [''info depth 9 score cp -20 pv d2d4'',
       ''info depth 12 seldepth 18 score cp 31 nodes 1000 pv e2e4 e7e5'',
       ''info depth 13 score cp 40 pv d2d4'']) ''evaluation'' = None
 \<and> evaluationCalls (resolutions (foldl handleLine awaitingEvaluation
      [''info depth 9 score cp -20 pv d2d4'',
       ''info depth 12 seldepth 18 score cp 31 nodes 1000 pv e2e4 e7e5'',
       ''info depth 13 score cp 40 pv d2d4''])) =
     [(0, \<lparr>frameScore = Num (fl (31 / 100)), frameMate = None, frameBestMove = ''e2e4'',
           framePv = [''e2e4'', ''e7e5''], frameDepth = Num 12\<rparr>)]"
proof -
  have sh: "\<forall>l \<in> set [''info depth 9 score cp -20 pv d2d4'']. \<not> deepFrame l"
    using shallow_example by simp
  from evaluate_resolved_by_first_deep_frame [OF awaiting_pending,
      of "[''info depth 9 score cp -20 pv d2d4'']" "[''info depth 9 score cp -20 pv d2d4'']"
         "''info depth 12 seldepth 18 score cp 31 nodes 1000 pv e2e4 e7e5''"
         "[''info depth 13 score cp 40 pv d2d4'']"]
    sh deep_example awaiting_calls
  show ?thesis by simp
qed

text \<open>
  C5 (as amended). When \<^verbatim>\<open>spawn\<close> threw and left the client without a handle,
  \<^verbatim>\<open>getBestMove\<close> returns the fixed move \<^verbatim>\<open>e2e4\<close> for every position and thinking
  time and leaves the client as it was. The move is a well-formed move token, and it is
  never \<^verbatim>\<open>none\<close>.
\<close>

theorem degraded_bestMove:
  "getBestMove (initEngine SpawnThrows) fen timeMs = (Returns ''e2e4'', initEngine SpawnThrows)
 \<and> validMoveToken ''e2e4''
 \<and> ''e2e4'' \<noteq> ''none''"
  by (simp add: getBestMove_def initEngine_def isSquare_def)

text \<open>
  The claim as stated fails where the rules engine reports no legal move: on the
  checkmated position the degraded client still answers \<^verbatim>\<open>e2e4\<close>.
\<close>

theorem degraded_bestMove_counterexample:
  "legalMoves matedEngine (newChess matedEngine) = []
 \<and> isCheckmate matedEngine (newChess matedEngine)
 \<and> getBestMove (initEngine SpawnThrows) (fenOf matedEngine (newChess matedEngine)) 1000
     = (Returns ''e2e4'', initEngine SpawnThrows)
 \<and> fst (getBestMove (initEngine SpawnThrows) (fenOf matedEngine (newChess matedEngine)) 1000)
     \<noteq> Returns ''none''"
  by (simp add: getBestMove_def initEngine_def matedEngine_def tableEngine_def)

section \<open>Claims about the stores\<close>






text \<open>
  C9 (as amended). A move whose stored evaluation is \<^verbatim>\<open>null\<close> or empty, once the loop
  of the ingestion reaches it, is ingested into the position database with evaluation
  exactly 0, and into the opening book with evaluation exactly 0 when its index is
  below 15; at an index of 15 or more the opening book is left as it was.
\<close>

theorem absent_evaluation_ingested_as_zero:
  assumes "row_evaluation mv = None \<or> row_evaluation mv = Some []"
    and "parseFloat ''0'' = 0"
  shows "learnOne parseFloat whiteWon blackWon draw i positionKey mv s =
           addToPositionDatabase
             (if i < 15
              then addToOpeningBook s positionKey (row_uci mv) whiteWon blackWon draw (side mv) 0
              else s)
             positionKey (row_uci mv) 0
       \<and> (15 \<le> i \<longrightarrow>
            openingBook (learnOne parseFloat whiteWon blackWon draw i positionKey mv s)
              = openingBook s)"
  using assms
  by (auto simp: learnOne_def evaluationText_def maxOpeningMoves_def addToPositionDatabase_def
        Let_def split: option.splits)

theorem absent_evaluation_ingested_as_zero_witness:
  "learnOne digitsValue True False False 3 ''k''
     \<lparr>moveNumber = 4, side = ''black'', row_san = ''Nf6'', row_uci = ''g8f6'',
       row_evaluation = None\<rparr>
     emptyService =
   addToPositionDatabase
     (addToOpeningBook emptyService ''k'' ''g8f6'' True False False ''black'' 0) ''k'' ''g8f6'' 0
 \<and> openingBook (learnOne digitsValue True False False 15 ''k''
     \<lparr>moveNumber = 16, side = ''black'', row_san = ''Nf6'', row_uci = ''g8f6'',
       row_evaluation = Some []\<rparr>
     emptyService) = openingBook emptyService"
proof -
  have z: "digitsValue ''0'' = 0" by (simp add: digitsValue_def)
  from absent_evaluation_ingested_as_zero
         [of "\<lparr>moveNumber = 4, side = ''black'', row_san = ''Nf6'', row_uci = ''g8f6'',
               row_evaluation = None\<rparr>"
             digitsValue True False False 3 "''k''" emptyService, OF _ z]
       absent_evaluation_ingested_as_zero
         [of "\<lparr>moveNumber = 16, side = ''black'', row_san = ''Nf6'', row_uci = ''g8f6'',
               row_evaluation = Some []\<rparr>"
             digitsValue True False False 15 "''k''" emptyService, OF _ z]
  show ?thesis by (simp add: addToPositionDatabase_def emptyService_def)
qed

text \<open>
  The claim as stated fails for a late move: in the game of sixteen plies along the
  example line, none with a stored evaluation, the sixteenth move (index 15) reaches the
  position database with evaluation 0 but leaves no entry in the opening book.
\<close>

theorem absent_evaluation_late_move_counterexample:
  "row_evaluation (lineRows ! 15) = None
 \<and> row_uci (lineRows ! 15) = ''h7h6''
 \<and> openingBook (processGameForLearning lineEngine digitsValue emptyService lineRows ''1-0'')
      ''rnbqkbnr/7p/ppppppp1/8/8/PPPPPPPP/8/RNBQKBNR b KQkq -'' = None
 \<and> positionDatabase (processGameForLearning lineEngine digitsValue emptyService lineRows ''1-0'')
      ''rnbqkbnr/7p/ppppppp1/8/8/PPPPPPPP/8/RNBQKBNR b KQkq -''
    = Some \<lparr>pd_fen = ''rnbqkbnr/7p/ppppppp1/8/8/PPPPPPPP/8/RNBQKBNR b KQkq -'',
            bestMoves = [''h7h6''], evaluation = 0, gamesPlayed = 1\<rparr>"
proof -
  let ?step = "lineStep digitsValue True False False"
  let ?s15 = "foldl ?step emptyService [0..<15]"
  have run: "processGameForLearning lineEngine digitsValue emptyService lineRows ''1-0''
      = ?step ?s15 15"
    using learnMoves_line_run [of 0 digitsValue True False False emptyService]
    by (simp add: processGameForLearning_def newChess_lineEngine upt_16)
  have row: "lineRows ! 15 =
      \<lparr>moveNumber = 15, side = ''black'', row_san = ''h6'', row_uci = ''h7h6'',
       row_evaluation = None\<rparr>"
    using lineRows_nth [of 15 "''h6''" "''h7''" "''h6''"
        "''rnbqkbnr/8/pppppppp/8/8/PPPPPPPP/8/RNBQKBNR w KQkq - 0 9''"]
    by (simp add: pawnLine_def)
  have b15: "openingBook ?s15 (lineKey 15) = None"
    using openingBook_line_other [of "[0..<15]" "lineKey 15" digitsValue True False False emptyService]
      lineKey_distinct by (simp add: emptyService_def)
  have d15: "positionDatabase ?s15 (lineKey 15) = None"
    using positionDatabase_line_other [of "[0..<15]" "lineKey 15" digitsValue True False False emptyService]
      lineKey_distinct by (simp add: emptyService_def)
  have "openingBook (?step ?s15 15) (lineKey 15) = None"
    using b15 by (simp add: lineStep_def openingBook_learnOne_other)
  moreover have "positionDatabase (?step ?s15 15) (lineKey 15)
      = Some \<lparr>pd_fen = lineKey 15, bestMoves = [''h7h6''], evaluation = 0, gamesPlayed = 1\<rparr>"
    using d15 by (simp add: lineStep_def learnOne_def maxOpeningMoves_def row
        addToPositionDatabase_def evaluationText_def digitsValue_def Let_def)
  ultimately show ?thesis
    unfolding run by (simp add: row lineKey_15)
qed

section \<open>Claims about the game service\<close>

text \<open>
  C1. The claim is that a candidate of the opening book or of the position database
  which the rules engine rejects lets the next source decide: the position database,
  then the engine. Here is \<open>makeAIMove\<close> where it does not. The rules engine throws on
  an illegal move. The book's candidate for the initial position is the illegal
  \<^verbatim>\<open>e2e5\<close>, and the position database holds the legal \<^verbatim>\<open>a2a3\<close>, which steps 2 and 3
  on their own would play. The function leaves the \<^verbatim>\<open>try\<close> block instead and returns
  the random move \<^verbatim>\<open>h3\<close>.
\<close>

theorem makeAIMove_thrown_candidate:
  "getBookMove (learnedStart [''e2e5''] [''a2a3'']) 0.5 (fenOf (forkEngine True) 0) = Some ''e2e5''
 \<and> applyMove (forkEngine True) 0 ''e2e5'' = Throws 0
 \<and> fromLearned (forkEngine True) (learnedStart [''e2e5''] [''a2a3'']) readyEngine
      (fenOf (forkEngine True) 0) 2000 0.5 0.9 (Returns ''h2h3'') 0
    = (Returns (Some \<lparr>gm_san = ''a3'', gm_uci = ''a2a3'',
         gm_fen = ''rnbqkbnr/pppppppp/8/8/8/P7/1PPPPPPP/RNBQKBNR b KQkq - 0 1''\<rparr>), 1)
 \<and> makeAIMove (forkEngine True) (learnedStart [''e2e5''] [''a2a3'']) readyEngine 0 2000 0.5 0.5
      0.9 (Returns ''h2h3'')
    = (Returns (Some \<lparr>gm_san = ''h3'', gm_uci = ''h2h3'',
         gm_fen = ''rnbqkbnr/pppppppp/8/8/8/7P/PPPPPPP1/RNBQKBNR b KQkq - 0 1''\<rparr>), 2)"
  by (simp add: makeAIMove_def fromLearned_def finish_def tryBook_def tryLearned_def
        fork_simps book_e2e5 common_moves random_h3 Let_def)



end
